theory Spec2Isabelle
  imports Complex_Main "HOL-Library.Option_ord"
begin

section \<open>Data model\<close>

text \<open>
  The two node processes of \<^verbatim>\<open>src/backend1.js\<close> (the primary, lines 1-284, and the
  secondary, lines 284-531) keep three Mongoose collections. A collection is a list of
  documents in natural (insertion) order: \<^verbatim>\<open>create\<close> appends, \<^verbatim>\<open>find()\<close> without a
  sort reads the list from its head, \<^verbatim>\<open>findOne\<close> and \<^verbatim>\<open>updateOne\<close> take the
  first match. A \<^verbatim>\<open>Date\<close> is its number of milliseconds since the epoch. A schema path
  that a document may lack is an option (\<open>None\<close>: the path is absent).
\<close>

type_synonym date = int

record location =
  lat :: "real option"
  lon :: "real option"
  accuracy :: "real option"

record entryDevice =
  ed_deviceId :: "string option"
  ed_ip :: "string option"
  ed_userAgent :: "string option"

text \<open>\<^verbatim>\<open>diaryEntrySchema\<close>, with the document's \<^verbatim>\<open>_id\<close> as \<open>entry_id\<close>.\<close>

record diaryEntry =
  entry_id :: "string option"
  entry_userId :: "string option"
  title :: "string option"
  content :: "string option"
  date :: "date option"
  tags :: "string list option"
  entry_location :: "location option"
  entry_deviceInfo :: "entryDevice option"

text \<open>\<^verbatim>\<open>loginActivitySchema\<close>.\<close>

record loginActivity =
  userId :: "string option"
  deviceId :: "string option"
  deviceName :: "string option"
  ip :: "string option"
  location :: "location option"
  loginTime :: "date option"
  logoutTime :: "date option"
  isActive :: "bool option"
  isSuspicious :: "bool option"

text \<open>
  \<^verbatim>\<open>userSchema\<close>, with the document's \<^verbatim>\<open>_id\<close> as \<open>user_id\<close>: an
  ObjectId, written as its 24 hexadecimal digits.
\<close>

record user =
  user_id :: string
  username :: string
  passwordHash :: "string option"
  backupPasswordHash :: "string option"
  locationPermission :: bool
  notificationPermission :: bool
  telegramChatId :: "string option"
  blockedIPs :: "string list"
  blockedDevices :: "string list"
  emergencyLockUntil :: "date option"
  lastLogin :: "date option"

record store =
  users :: "user list"
  loginActivities :: "loginActivity list"
  diaryEntries :: "diaryEntry list"

section \<open>The Mongoose calls the handlers use\<close>

text \<open>\<^verbatim>\<open>Model.findOne(filter)\<close>: the first document that matches.\<close>

definition findOne :: "('a \<Rightarrow> bool) \<Rightarrow> 'a list \<Rightarrow> 'a option" where
  "findOne P xs = find P xs"

text \<open>\<^verbatim>\<open>Model.create(doc)\<close>: the document is appended.\<close>

definition create :: "'a \<Rightarrow> 'a list \<Rightarrow> 'a list" where
  "create x xs = xs @ [x]"

text \<open>
  \<^verbatim>\<open>Model.updateOne(filter, update)\<close>: the update is applied to the first document
  that matches and to no other; without a match nothing is written.
\<close>

fun updateOne :: "('a \<Rightarrow> bool) \<Rightarrow> ('a \<Rightarrow> 'a) \<Rightarrow> 'a list \<Rightarrow> 'a list" where
  "updateOne P f [] = []"
| "updateOne P f (x # xs) = (if P x then f x # xs else x # updateOne P f xs)"


text \<open>\<^verbatim>\<open>Model.find().limit(n)\<close>: the first \<open>n\<close> documents in natural order.\<close>

definition find_limit :: "nat \<Rightarrow> 'a list \<Rightarrow> 'a list" where
  "find_limit n xs = take n xs"

text \<open>
  \<^verbatim>\<open>Model.find().sort({key: -1}).limit(n)\<close>, as the listing routes
  (\<^verbatim>\<open>GET /api/diary\<close>, \<^verbatim>\<open>GET /api/activity\<close>, the chat commands) read: descending
  by the key, an absent key below every present one, then the first \<open>n\<close>. The
  order among equal keys is not promised by the store; here it is the reverse of the
  natural order.
\<close>

definition find_sort_desc_limit :: "('a \<Rightarrow> date option) \<Rightarrow> nat \<Rightarrow> 'a list \<Rightarrow> 'a list" where
  "find_sort_desc_limit key n xs = take n (rev (sort_key key xs))"

section \<open>The login route\<close>

text \<open>The body of \<^verbatim>\<open>POST /api/login\<close>; \<^verbatim>\<open>deviceInfo\<close> and \<^verbatim>\<open>location\<close> may be missing.\<close>

record deviceInfo =
  di_deviceId :: "string option"
  di_deviceName :: "string option"
  di_ip :: "string option"

record loginRequest =
  req_username :: string
  req_password :: "string option"
  req_isBackup :: bool
  req_deviceInfo :: "deviceInfo option"
  req_location :: "location option"

text \<open>
  The responses of the route: 401 \<^verbatim>\<open>Invalid credentials\<close>, 403
  \<^verbatim>\<open>Account locked until ...\<close>, 403 \<^verbatim>\<open>Location permission required...\<close>, 200 with
  the token, the username and \<^verbatim>\<open>requiresNotificationPermission\<close>, and the 500 of the
  \<^verbatim>\<open>catch\<close> block.
\<close>

datatype loginResponse =
    InvalidCredentials
  | AccountLocked date
  | LocationRequired
  | LoginOk string string bool
  | InternalServerError

text \<open>
  The handler reads the clock up to three times: at the lock check (line 93), when it
  writes the user (line 107 or 124) and when it creates the session record (line 116 or
  133). The three readings are inputs.
\<close>

record clock =
  at_lockCheck :: date
  at_userWrite :: date
  at_sessionCreate :: date

text \<open>
  \<^verbatim>\<open>bcrypt.compare(password, hash)\<close> rejects when one of its arguments is not a
  string; otherwise it answers whether the password matches the hash. The matching
  itself is the parameter \<open>verify\<close>.
\<close>

definition bcrypt_compare ::
  "(string \<Rightarrow> string \<Rightarrow> bool) \<Rightarrow> string option \<Rightarrow> string option \<Rightarrow> bool option" where
  "bcrypt_compare verify password hash =
     (case (password, hash) of
        (Some p, Some h) \<Rightarrow> Some (verify p h)
      | _ \<Rightarrow> None)"

text \<open>\<^verbatim>\<open>user.save()\<close>: the modified paths are written to the document with the user's id.\<close>

definition save_user :: "string \<Rightarrow> (user \<Rightarrow> user) \<Rightarrow> user list \<Rightarrow> user list" where
  "save_user uid f us = updateOne (\<lambda>d. user_id d = uid) f us"

definition lockDuration :: int where
  "lockDuration = 15 * 60 * 1000"

text \<open>
  The session record of the missing-location branch (lines 110-117); the schema
  defaults fill \<^verbatim>\<open>isActive\<close>.
\<close>

definition suspiciousActivity :: "user \<Rightarrow> deviceInfo \<Rightarrow> date \<Rightarrow> loginActivity" where
  "suspiciousActivity u di t =
     \<lparr> userId = Some (user_id u), deviceId = di_deviceId di,
       deviceName = di_deviceName di, ip = di_ip di, location = None,
       loginTime = Some t, logoutTime = None,
       isActive = Some True, isSuspicious = Some True \<rparr>"

text \<open>
  The session record of the success branch (lines 127-135); the schema defaults fill
  \<^verbatim>\<open>isSuspicious\<close>.
\<close>

definition successActivity :: "user \<Rightarrow> deviceInfo \<Rightarrow> location \<Rightarrow> date \<Rightarrow> loginActivity" where
  "successActivity u di loc t =
     \<lparr> userId = Some (user_id u), deviceId = di_deviceId di,
       deviceName = di_deviceName di, ip = di_ip di, location = Some loc,
       loginTime = Some t, logoutTime = None,
       isActive = Some True, isSuspicious = Some False \<rparr>"

text \<open>
  Lines 99-143 of \<^verbatim>\<open>app.post('/api/login')\<close>: what the handler does for the user
  \<open>u\<close> once the lock check has let the attempt through. \<open>token\<close> is what
  \<^verbatim>\<open>randomBytes(32).toString('hex')\<close> returns. The \<^verbatim>\<open>TypeError\<close> on a missing
  \<^verbatim>\<open>deviceInfo\<close> is raised after \<^verbatim>\<open>user.save()\<close>, so the 500 of that branch keeps
  the write to the user.
\<close>

definition login_unlocked ::
  "(string \<Rightarrow> string \<Rightarrow> bool) \<Rightarrow> clock \<Rightarrow> string \<Rightarrow> loginRequest \<Rightarrow> store \<Rightarrow> user
     \<Rightarrow> loginResponse \<times> store" where
  "login_unlocked verify clk token req st u =
     (let passwordToCheck =
            (if req_isBackup req then backupPasswordHash u else passwordHash u)
      in case bcrypt_compare verify (req_password req) passwordToCheck of
           None \<Rightarrow> (InternalServerError, st)
         | Some isValid \<Rightarrow>
             if \<not> isValid then (InvalidCredentials, st)
             else
               (case req_location req of
                  None \<Rightarrow>
                    (let st1 = st\<lparr>users := save_user (user_id u)
                                 (\<lambda>d. d\<lparr>emergencyLockUntil :=
                                           Some (at_userWrite clk + lockDuration)\<rparr>)
                                 (users st)\<rparr>
                     in case req_deviceInfo req of
                          None \<Rightarrow> (InternalServerError, st1)
                        | Some di \<Rightarrow>
                            (LocationRequired,
                             st1\<lparr>loginActivities :=
                                   create (suspiciousActivity u di (at_sessionCreate clk))
                                     (loginActivities st1)\<rparr>))
                | Some loc \<Rightarrow>
                    (let st1 = st\<lparr>users := save_user (user_id u)
                                 (\<lambda>d. d\<lparr>lastLogin := Some (at_userWrite clk)\<rparr>)
                                 (users st)\<rparr>
                     in case req_deviceInfo req of
                          None \<Rightarrow> (InternalServerError, st1)
                        | Some di \<Rightarrow>
                            (LoginOk token (username u) (\<not> notificationPermission u),
                             st1\<lparr>loginActivities :=
                                   create (successActivity u di loc (at_sessionCreate clk))
                                     (loginActivities st1)\<rparr>))))"

text \<open>
  \<^verbatim>\<open>app.post('/api/login')\<close>, lines 86-97 and then \<open>login_unlocked\<close>: the user is
  looked up by name, and a lock that is set and still ahead of the clock ends the attempt.
\<close>

definition login ::
  "(string \<Rightarrow> string \<Rightarrow> bool) \<Rightarrow> clock \<Rightarrow> string \<Rightarrow> loginRequest \<Rightarrow> store
     \<Rightarrow> loginResponse \<times> store" where
  "login verify clk token req st =
     (case findOne (\<lambda>u. username u = req_username req) (users st) of
        None \<Rightarrow> (InvalidCredentials, st)
      | Some u \<Rightarrow>
          (case emergencyLockUntil u of
             None \<Rightarrow> login_unlocked verify clk token req st u
           | Some until \<Rightarrow>
               if at_lockCheck clk < until then (AccountLocked until, st)
               else login_unlocked verify clk token req st u))"

section \<open>Closing a device's session and blocking an address\<close>

text \<open>
  \<^verbatim>\<open>app.post('/api/logout-device')\<close>: one \<^verbatim>\<open>LoginActivity.updateOne\<close> with the
  filter \<^verbatim>\<open>{deviceId, isActive: true}\<close>; the response is \<^verbatim>\<open>{success: true}\<close>.
\<close>

definition logout_device :: "date \<Rightarrow> string \<Rightarrow> store \<Rightarrow> store" where
  "logout_device now dev st =
     st\<lparr>loginActivities :=
          updateOne (\<lambda>a. deviceId a = Some dev \<and> isActive a = Some True)
            (\<lambda>a. a\<lparr>isActive := Some False, logoutTime := Some now\<rparr>)
            (loginActivities st)\<rparr>"

text \<open>The records of a device that are active.\<close>

definition activeFor :: "string \<Rightarrow> loginActivity list \<Rightarrow> loginActivity list" where
  "activeFor dev as = filter (\<lambda>a. deviceId a = Some dev \<and> isActive a = Some True) as"

text \<open>The \<^verbatim>\<open>$addToSet\<close> operator on an array path.\<close>

definition addToSet :: "'a \<Rightarrow> 'a list \<Rightarrow> 'a list" where
  "addToSet x xs = (if x \<in> set xs then xs else xs @ [x])"

text \<open>
  The \<^verbatim>\<open>_id\<close> of \<^verbatim>\<open>userSchema\<close> is an ObjectId. A string in a filter on
  \<^verbatim>\<open>_id\<close> is cast to one before the query is sent: a string of 24 hexadecimal
  digits is the id it spells, in lower case; for any other string of that length, and
  for any string whose length is neither 24 nor 12, the cast fails and the query rejects
  with a \<^verbatim>\<open>CastError\<close>. (Older drivers also take a string of 12 characters for the
  12 bytes of an id; that case is left out: the one string the source passes has 15.)
\<close>

definition isHexDigit :: "char \<Rightarrow> bool" where
  "isHexDigit c = (c \<in> set ''0123456789abcdefABCDEF'')"

definition lowerHex :: "char \<Rightarrow> char" where
  "lowerHex c =
     (if c = CHR ''A'' then CHR ''a'' else if c = CHR ''B'' then CHR ''b''
      else if c = CHR ''C'' then CHR ''c'' else if c = CHR ''D'' then CHR ''d''
      else if c = CHR ''E'' then CHR ''e'' else if c = CHR ''F'' then CHR ''f'' else c)"

definition castObjectId :: "string \<Rightarrow> string option" where
  "castObjectId s =
     (if length s = 24 \<and> list_all isHexDigit s then Some (map lowerHex s) else None)"

text \<open>
  The responses of \<^verbatim>\<open>app.post('/api/block-ip')\<close>: \<^verbatim>\<open>{success: true}\<close>, and the
  500 \<^verbatim>\<open>Failed to block IP\<close> of the \<^verbatim>\<open>catch\<close> block.
\<close>

datatype blockResponse = BlockOk | BlockFailed

text \<open>
  \<^verbatim>\<open>app.post('/api/block-ip')\<close> (lines 225-239): one
  \<^verbatim>\<open>User.updateOne({_id: 'user_from_token'}, {$addToSet: {blockedIPs: ip}})\<close>. The
  id of the filter is that fixed string, whatever the token of the request. When its
  cast fails the \<^verbatim>\<open>catch\<close> block answers and nothing is written.
\<close>

definition block_ip :: "string \<Rightarrow> store \<Rightarrow> blockResponse \<times> store" where
  "block_ip addr st =
     (case castObjectId ''user_from_token'' of
        None \<Rightarrow> (BlockFailed, st)
      | Some oid \<Rightarrow>
          (BlockOk,
           st\<lparr>users :=
                updateOne (\<lambda>u. user_id u = oid)
                  (\<lambda>u. u\<lparr>blockedIPs := addToSet addr (blockedIPs u)\<rparr>)
                  (users st)\<rparr>))"

section \<open>The ingest routes of the secondary\<close>

text \<open>
  A path of an incoming JSON record: not there, null, or a value. The identity key of
  a record (the \<^verbatim>\<open>_id\<close> of a diary entry, \<^verbatim>\<open>deviceId\<close> and \<^verbatim>\<open>loginTime\<close> of a
  session record) is a value in every incoming record. The \<^verbatim>\<open>_id\<close> of an incoming
  session record is not there or is a value. An \<^verbatim>\<open>_id\<close> that a record carries is
  an ObjectId, written as its 24 hexadecimal digits.
\<close>

datatype 'a incoming = Absent | Null | Value 'a

record diaryPayload =
  e_id :: string
  e_userId :: "string incoming"
  e_title :: "string incoming"
  e_content :: "string incoming"
  e_date :: "date incoming"
  e_tags :: "string list incoming"
  e_location :: "location incoming"
  e_deviceInfo :: "entryDevice incoming"



text \<open>
  Both routes pass the incoming record itself as the update of
  \<^verbatim>\<open>findOneAndUpdate\<close>. Mongoose wraps an update without operators in \<^verbatim>\<open>$set\<close>:
  every path the record carries is written, every path it lacks keeps its stored value.
  \<open>set_path new old\<close> is that rule on one path; a stored null and a path that is not
  stored are both \<open>None\<close>.
\<close>

definition set_path :: "'a incoming \<Rightarrow> 'a option \<Rightarrow> 'a option" where
  "set_path new old = (case new of Absent \<Rightarrow> old | Null \<Rightarrow> None | Value v \<Rightarrow> Some v)"

definition set_diaryEntry :: "diaryPayload \<Rightarrow> diaryEntry \<Rightarrow> diaryEntry" where
  "set_diaryEntry e d =
     \<lparr> entry_id = Some (e_id e),
       entry_userId = set_path (e_userId e) (entry_userId d),
       title = set_path (e_title e) (title d),
       content = set_path (e_content e) (content d),
       date = set_path (e_date e) (date d),
       tags = set_path (e_tags e) (tags d),
       entry_location = set_path (e_location e) (entry_location d),
       entry_deviceInfo = set_path (e_deviceInfo e) (entry_deviceInfo d) \<rparr>"










text \<open>
  \<^verbatim>\<open>app.post('/api/sync-activity')\<close> on the session collection. Each incoming
  record comes with the id the driver would generate for it. A write that the store
  refuses throws: the loop ends there, the earlier writes stay, and the \<^verbatim>\<open>catch\<close>
  block answers 500.
\<close>

datatype syncResponse = Synced nat | SyncFailed





section \<open>Recovery read, health probe and sync cycle of the secondary\<close>

text \<open>\<^verbatim>\<open>app.get('/api/backup-data')\<close>: two reads, no sort, limit 100.\<close>

definition backup_data :: "store \<Rightarrow> (diaryEntry list \<times> loginActivity list) \<times> store" where
  "backup_data st =
     ((find_limit 100 (diaryEntries st), find_limit 100 (loginActivities st)), st)"

text \<open>
  What \<^verbatim>\<open>await fetch(...)\<close> gives: it rejects with an error that has a message, or it
  resolves to a response whose \<^verbatim>\<open>ok\<close> flag is read.
\<close>

datatype fetchResult = Rejected string | Response bool

datatype request =
    GetHealth
  | PostSyncDiary "diaryEntry list"
  | PostSyncActivity "loginActivity list"

text \<open>
  The state a timer callback runs in: the store, the requests it has issued to the
  primary and the lines it has logged; and, once the callback has settled, the message
  of the exception that left it, if one did (\<open>uncaught\<close>).
\<close>

record run =
  uncaught :: "string option"
  after :: store
  issued :: "request list"
  logged :: "string list"

definition start :: "store \<Rightarrow> run" where
  "start st = \<lparr> uncaught = None, after = st, issued = [], logged = [] \<rparr>"

text \<open>
  A statement of a callback, run in a state: it throws an error with a message (\<open>Inl\<close>)
  or completes with a value, and leaves a state. \<open>andThen\<close> is the sequence of two
  statements, which the first one's exception cuts short; \<open>try_catch\<close> hands an
  exception of the block to the handler; \<open>settle\<close> ends the callback: an exception
  that is still there has left it.
\<close>

definition andThen ::
  "(string + 'a) \<times> run \<Rightarrow> ('a \<Rightarrow> run \<Rightarrow> (string + 'b) \<times> run) \<Rightarrow> (string + 'b) \<times> run" where
  "andThen r k = (case fst r of Inl err \<Rightarrow> (Inl err, snd r) | Inr v \<Rightarrow> k v (snd r))"

definition try_catch ::
  "(string + 'a) \<times> run \<Rightarrow> (string \<Rightarrow> run \<Rightarrow> (string + 'a) \<times> run) \<Rightarrow> (string + 'a) \<times> run" where
  "try_catch r handler = (case fst r of Inl err \<Rightarrow> handler err (snd r) | Inr v \<Rightarrow> r)"

definition settle :: "(string + unit) \<times> run \<Rightarrow> run" where
  "settle r = (snd r)\<lparr>uncaught := (case fst r of Inl err \<Rightarrow> Some err | Inr _ \<Rightarrow> None)\<rparr>"

text \<open>
  \<^verbatim>\<open>await fetch(...)\<close>: the request is issued; a rejection is thrown, a response
  gives its \<^verbatim>\<open>ok\<close> flag. \<^verbatim>\<open>console.log(...)\<close> adds a line and does not throw.
\<close>

definition await_fetch :: "request \<Rightarrow> fetchResult \<Rightarrow> run \<Rightarrow> (string + bool) \<times> run" where
  "await_fetch req res w =
     ((case res of Rejected msg \<Rightarrow> Inl msg | Response ok \<Rightarrow> Inr ok),
      w\<lparr>issued := issued w @ [req]\<rparr>)"

definition console_log :: "string \<Rightarrow> run \<Rightarrow> (string + unit) \<times> run" where
  "console_log line w = (Inr (), w\<lparr>logged := logged w @ [line]\<rparr>)"


text \<open>
  The \<^verbatim>\<open>try\<close> block of \<^verbatim>\<open>syncWithPrimary\<close> (lines 415-433), given the outcomes of
  its three fetches. The two reads take the first 50 documents of each collection. The
  \<^verbatim>\<open>ok\<close> flag of the two push responses is not read.
\<close>

definition syncWithPrimary_try ::
  "fetchResult \<Rightarrow> fetchResult \<Rightarrow> fetchResult \<Rightarrow> store \<Rightarrow> (string + unit) \<times> run" where
  "syncWithPrimary_try health pushDiary pushActivity st =
     andThen (await_fetch GetHealth health (start st))
       (\<lambda>ok w.
          if ok then
            (let diary = find_limit 50 (diaryEntries (after w));
                 activities = find_limit 50 (loginActivities (after w))
             in andThen (await_fetch (PostSyncDiary diary) pushDiary w)
                  (\<lambda>_ w1.
                     andThen (await_fetch (PostSyncActivity activities) pushActivity w1)
                       (\<lambda>_. console_log ''Synced data with primary service'')))
          else (Inr (), w))"

text \<open>\<^verbatim>\<open>syncWithPrimary\<close>: the \<^verbatim>\<open>try\<close> block under its \<^verbatim>\<open>catch\<close> (lines 434-436).\<close>

definition syncWithPrimary ::
  "fetchResult \<Rightarrow> fetchResult \<Rightarrow> fetchResult \<Rightarrow> store \<Rightarrow> run" where
  "syncWithPrimary health pushDiary pushActivity st =
     settle
       (try_catch (syncWithPrimary_try health pushDiary pushActivity st)
          (\<lambda>msg. console_log (''Sync with primary failed: '' @ msg)))"

text \<open>The records a run pushed: the bodies of its two POST requests.\<close>

fun pushedDiary :: "request list \<Rightarrow> diaryEntry list option" where
  "pushedDiary [] = None"
| "pushedDiary (PostSyncDiary es # rs) = Some es"
| "pushedDiary (r # rs) = pushedDiary rs"

fun pushedActivity :: "request list \<Rightarrow> loginActivity list option" where
  "pushedActivity [] = None"
| "pushedActivity (PostSyncActivity as # rs) = Some as"
| "pushedActivity (r # rs) = pushedActivity rs"

section \<open>Conditions the claims speak of\<close>

text \<open>A lock that is set and still ahead of the clock.\<close>

definition lockActive :: "user \<Rightarrow> date \<Rightarrow> bool" where
  "lockActive u now =
     (case emergencyLockUntil u of None \<Rightarrow> False | Some until \<Rightarrow> now < until)"

text \<open>The secret of the request matches the hash that the request selects.\<close>

definition secretCorrect :: "(string \<Rightarrow> string \<Rightarrow> bool) \<Rightarrow> loginRequest \<Rightarrow> user \<Rightarrow> bool" where
  "secretCorrect verify req u =
     (bcrypt_compare verify (req_password req)
        (if req_isBackup req then backupPasswordHash u else passwordHash u) = Some True)"

section \<open>Example data\<close>

text \<open>A stand-in for the hash comparison: the hash of \<open>p\<close> is \<open>hash:p\<close>.\<close>

definition verify0 :: "string \<Rightarrow> string \<Rightarrow> bool" where
  "verify0 p h = (h = ''hash:'' @ p)"

definition alice :: user where
  "alice = \<lparr> user_id = ''65a1f0c2b7d3e4a5f6071802'', username = ''alice'',
     passwordHash = Some ''hash:secret'', backupPasswordHash = Some ''hash:spare'',
     locationPermission = False, notificationPermission = False, telegramChatId = None,
     blockedIPs = [], blockedDevices = [], emergencyLockUntil = None, lastLogin = None \<rparr>"

definition bob :: user where
  "bob = \<lparr> user_id = ''65a1f0c2b7d3e4a5f6071801'', username = ''bob'',
     passwordHash = Some ''hash:hunter2'', backupPasswordHash = None,
     locationPermission = True, notificationPermission = True, telegramChatId = Some ''42'',
     blockedIPs = [''10.0.0.9''], blockedDevices = [], emergencyLockUntil = None,
     lastLogin = Some 500 \<rparr>"

definition store0 :: store where
  "store0 = \<lparr> users = [bob, alice], loginActivities = [], diaryEntries = [] \<rparr>"

text \<open>Alice under a lock that ends at 5000, and under one that ended at 900.\<close>

definition lockedStore :: store where
  "lockedStore = \<lparr> users = [bob, alice\<lparr>emergencyLockUntil := Some 5000\<rparr>],
     loginActivities = [], diaryEntries = [] \<rparr>"

definition expiredStore :: store where
  "expiredStore = \<lparr> users = [bob, alice\<lparr>emergencyLockUntil := Some 900\<rparr>],
     loginActivities = [], diaryEntries = [] \<rparr>"

definition phone :: deviceInfo where
  "phone = \<lparr> di_deviceId = Some ''d1'', di_deviceName = Some ''phone'',
     di_ip = Some ''10.0.0.1'' \<rparr>"

definition home :: location where
  "home = \<lparr> lat = Some 26.14, lon = Some 91.73, accuracy = Some 10 \<rparr>"

definition clock0 :: clock where
  "clock0 = \<lparr> at_lockCheck = 1000, at_userWrite = 1001, at_sessionCreate = 1002 \<rparr>"

definition aliceLogin :: "string \<Rightarrow> bool \<Rightarrow> location option \<Rightarrow> loginRequest" where
  "aliceLogin pw backup loc = \<lparr> req_username = ''alice'', req_password = Some pw,
     req_isBackup = backup, req_deviceInfo = Some phone, req_location = loc \<rparr>"

text \<open>Two sessions of the same device, both active.\<close>

definition twoSessions :: store where
  "twoSessions = \<lparr> users = [bob, alice],
     loginActivities =
       [successActivity alice phone home 1002, successActivity alice phone home 2002],
     diaryEntries = [] \<rparr>"

text \<open>A stored diary entry, and a store that holds it.\<close>

definition diaryOld :: diaryEntry where
  "diaryOld = \<lparr> entry_id = Some ''65b2000000000000000000e1'', entry_userId = Some ''user_from_token'',
     title = Some ''Monday'', content = Some ''rain'', date = Some 100, tags = Some [],
     entry_location = None, entry_deviceInfo = None \<rparr>"

definition diaryStore :: store where
  "diaryStore = \<lparr> users = [], loginActivities = [], diaryEntries = [diaryOld] \<rparr>"




text \<open>
  A store of \<open>n\<close> diary entries (up to 256) in the order of their creation: the
  entry at position \<open>i\<close> has the date \<open>i\<close>.
\<close>

definition numbered :: "nat \<Rightarrow> diaryEntry" where
  "numbered i = \<lparr> entry_id = Some (replicate 22 CHR ''0''
       @ [''0123456789abcdef'' ! (i div 16), ''0123456789abcdef'' ! (i mod 16)]),
     entry_userId = Some ''user_from_token'', title = Some ''t'', content = Some ''c'',
     date = Some (int i), tags = Some [], entry_location = None, entry_deviceInfo = None \<rparr>"

definition bigStore :: "nat \<Rightarrow> store" where
  "bigStore n = \<lparr> users = [], loginActivities = [], diaryEntries = map numbered [0..<n] \<rparr>"

section \<open>Facts about the Mongoose calls\<close>

lemma findOne_Some_D: "findOne P xs = Some u \<Longrightarrow> u \<in> set xs \<and> P u"
  unfolding findOne_def by (auto simp: find_Some_iff)

text \<open>
  Where the ids of a collection are distinct, the document \<^verbatim>\<open>findOne\<close> returned is
  the one a write by its id reaches.
\<close>

lemma findOne_updateOne_key:
  "findOne P xs = Some u \<Longrightarrow> distinct (map k xs) \<Longrightarrow> P (f u)
   \<Longrightarrow> findOne P (updateOne (\<lambda>d. k d = k u) f xs) = Some (f u)"
proof (induction xs)
  case Nil
  then show ?case by (simp add: findOne_def)
next
  case (Cons x xs)
  show ?case
  proof (cases "P x")
    case True
    with Cons.prems have "u = x" by (simp add: findOne_def)
    with Cons.prems show ?thesis by (simp add: findOne_def)
  next
    case False
    with Cons.prems have fu: "findOne P xs = Some u" by (simp add: findOne_def)
    then have "u \<in> set xs" by (simp add: findOne_Some_D)
    with Cons.prems(2) have "k x \<noteq> k u" by auto
    with False Cons.IH [OF fu] Cons.prems show ?thesis by (simp add: findOne_def)
  qed
qed

lemma updateOne_no_match: "\<forall>x\<in>set xs. \<not> P x \<Longrightarrow> updateOne P f xs = xs"
  by (induction xs) auto

lemma updateOne_first_match:
  "\<forall>x\<in>set pre. \<not> P x \<Longrightarrow> P a \<Longrightarrow> updateOne P f (pre @ a # post) = pre @ f a # post"
  by (induction pre) auto



section \<open>Facts about batches of upserts\<close>








lemma fold_updateOne_Nil: "fold (\<lambda>p. updateOne (mt p) (m p)) ps [] = []"
  by (induction ps) simp_all


section \<open>Facts about the update of the ingest routes\<close>








lemma set_diaryEntry_match:
  "entry_id d = Some (e_id p)
   \<Longrightarrow> (entry_id (set_diaryEntry p d) = Some (e_id q)) = (entry_id d = Some (e_id q))"
  by (simp add: set_diaryEntry_def)











section \<open>Facts about writes that the session collection refuses\<close>














section \<open>One incoming record, and the two routes\<close>











section \<open>The login route: lock, credentials, location\<close>

text \<open>
  Claim C1. When the user of an authenticate call has \<^verbatim>\<open>emergencyLockUntil\<close> set and
  the clock at the lock check is strictly before it, the call answers
  \<open>AccountLocked until\<close> and leaves the store as it was. The request, the hash
  comparison and the later clock readings are arbitrary: the answer is the same for the
  primary and the backup credential, for a right and a wrong secret, and the hash is
  never consulted.
\<close>

theorem login_locked:
  assumes "findOne (\<lambda>u. username u = req_username req) (users st) = Some u"
    and "emergencyLockUntil u = Some until"
    and "at_lockCheck clk < until"
  shows "login verify clk token req st = (AccountLocked until, st)"
  using assms by (simp add: login_def)

theorem login_locked_witness:
  "login verify0 clock0 ''t'' (aliceLogin ''secret'' False (Some home)) lockedStore
     = (AccountLocked 5000, lockedStore)
   \<and> login verify0 clock0 ''t'' (aliceLogin ''spare'' True (Some home)) lockedStore
     = (AccountLocked 5000, lockedStore)
   \<and> login verify0 clock0 ''t'' (aliceLogin ''wrong'' False None) lockedStore
     = (AccountLocked 5000, lockedStore)"
proof -
  have f: "\<And>pw b loc.
      findOne (\<lambda>u. username u = req_username (aliceLogin pw b loc)) (users lockedStore)
      = Some (alice\<lparr>emergencyLockUntil := Some 5000\<rparr>)"
    by (simp add: findOne_def lockedStore_def aliceLogin_def alice_def bob_def)
  have l: "emergencyLockUntil (alice\<lparr>emergencyLockUntil := Some 5000\<rparr>) = Some 5000"
    by simp
  have c: "at_lockCheck clock0 < 5000" by (simp add: clock0_def)
  show ?thesis
    using login_locked [OF f l c, of verify0 "''t''"] by simp
qed

text \<open>
  Claim C2, as stated, fails under an active lock: Alice exists, her secret is
  right and no location is supplied, yet the call answers \<open>AccountLocked\<close>, her lock
  stays at 5000 and no session record is appended.
\<close>

theorem login_no_location_counterexample:
  "findOne (\<lambda>u. username u = req_username (aliceLogin ''secret'' False None))
       (users lockedStore)
     = Some (alice\<lparr>emergencyLockUntil := Some 5000\<rparr>)
   \<and> secretCorrect verify0 (aliceLogin ''secret'' False None)
       (alice\<lparr>emergencyLockUntil := Some 5000\<rparr>)
   \<and> req_location (aliceLogin ''secret'' False None) = None
   \<and> login verify0 clock0 ''t'' (aliceLogin ''secret'' False None) lockedStore
       = (AccountLocked 5000, lockedStore)"
  by (simp add: login_def findOne_def lockedStore_def aliceLogin_def alice_def bob_def
      clock0_def secretCorrect_def bcrypt_compare_def verify0_def)

text \<open>
  Claim C2, amended. For an authenticate call with an existing user who is not under an
  active lock, a correct secret, no location and the device information of the
  operation's signature: the call answers \<open>LocationRequired\<close>; the user's
  \<^verbatim>\<open>emergencyLockUntil\<close> becomes the clock reading of that write plus 15 minutes,
  whatever (expired) value it had; exactly one session record is appended, with
  \<^verbatim>\<open>isSuspicious = true\<close> and \<^verbatim>\<open>loginTime\<close> the clock reading of its creation.
\<close>

theorem login_no_location:
  assumes "findOne (\<lambda>u. username u = req_username req) (users st) = Some u"
    and "\<not> lockActive u (at_lockCheck clk)"
    and "secretCorrect verify req u"
    and "req_location req = None"
    and "req_deviceInfo req = Some di"
    and "distinct (map user_id (users st))"
  shows "login verify clk token req st =
           (LocationRequired,
            st\<lparr>users := save_user (user_id u)
                   (\<lambda>d. d\<lparr>emergencyLockUntil := Some (at_userWrite clk + 15 * 60 * 1000)\<rparr>)
                   (users st),
               loginActivities :=
                 loginActivities st @ [suspiciousActivity u di (at_sessionCreate clk)]\<rparr>)
       \<and> findOne (\<lambda>u. username u = req_username req)
             (users (snd (login verify clk token req st)))
           = Some (u\<lparr>emergencyLockUntil := Some (at_userWrite clk + 15 * 60 * 1000)\<rparr>)
       \<and> isSuspicious (suspiciousActivity u di (at_sessionCreate clk)) = Some True
       \<and> loginTime (suspiciousActivity u di (at_sessionCreate clk))
           = Some (at_sessionCreate clk)"
proof -
  let ?lock = "\<lambda>d::user. d\<lparr>emergencyLockUntil := Some (at_userWrite clk + 15 * 60 * 1000)\<rparr>"
  have un: "username u = req_username req"
    using assms(1) by (auto dest: findOne_Some_D)
  have r: "login verify clk token req st =
           (LocationRequired,
            st\<lparr>users := save_user (user_id u) ?lock (users st),
               loginActivities :=
                 loginActivities st @ [suspiciousActivity u di (at_sessionCreate clk)]\<rparr>)"
    using assms(1-5)
    by (auto simp: login_def login_unlocked_def lockActive_def secretCorrect_def create_def
        lockDuration_def split: option.splits)
  have "findOne (\<lambda>u. username u = req_username req)
          (updateOne (\<lambda>d. user_id d = user_id u) ?lock (users st)) = Some (?lock u)"
    by (rule findOne_updateOne_key [OF assms(1) assms(6)]) (simp add: un)
  with r show ?thesis by (simp add: save_user_def suspiciousActivity_def)
qed

theorem login_no_location_witness:
  "login verify0 clock0 ''t'' (aliceLogin ''secret'' False None) expiredStore =
     (LocationRequired,
      \<lparr> users = [bob, alice\<lparr>emergencyLockUntil := Some 901001\<rparr>],
        loginActivities =
          [suspiciousActivity (alice\<lparr>emergencyLockUntil := Some 900\<rparr>) phone 1002],
        diaryEntries = [] \<rparr>)"
proof -
  let ?req = "aliceLogin ''secret'' False None"
  let ?u = "alice\<lparr>emergencyLockUntil := Some 900\<rparr>"
  have f: "findOne (\<lambda>u. username u = req_username ?req) (users expiredStore) = Some ?u"
    by (simp add: findOne_def expiredStore_def aliceLogin_def alice_def bob_def)
  have l: "\<not> lockActive ?u (at_lockCheck clock0)"
    by (simp add: lockActive_def clock0_def)
  have s: "secretCorrect verify0 ?req ?u"
    by (simp add: secretCorrect_def aliceLogin_def alice_def bcrypt_compare_def verify0_def)
  have n: "req_location ?req = None" by (simp add: aliceLogin_def)
  have d: "req_deviceInfo ?req = Some phone" by (simp add: aliceLogin_def)
  have i: "distinct (map user_id (users expiredStore))"
    by (simp add: expiredStore_def alice_def bob_def)
  show ?thesis
    using login_no_location [OF f l s n d i, of "''t''"]
    by (simp add: save_user_def expiredStore_def alice_def bob_def clock0_def)
qed

text \<open>
  Claim C5. For an authenticate call with an existing user who is not under an active
  lock, a correct secret, a location and the device information of the operation's
  signature: the call succeeds with the token, the username and the flag
  \<^verbatim>\<open>requiresNotificationPermission = !user.notificationPermission\<close>; the user's
  \<^verbatim>\<open>lastLogin\<close> becomes the clock reading of that write; exactly one session record is
  appended, with \<^verbatim>\<open>isActive = true\<close>, \<^verbatim>\<open>isSuspicious = false\<close> and the supplied
  location.
\<close>

theorem login_success:
  assumes "findOne (\<lambda>u. username u = req_username req) (users st) = Some u"
    and "\<not> lockActive u (at_lockCheck clk)"
    and "secretCorrect verify req u"
    and "req_location req = Some loc"
    and "req_deviceInfo req = Some di"
    and "distinct (map user_id (users st))"
  shows "login verify clk token req st =
           (LoginOk token (username u) (\<not> notificationPermission u),
            st\<lparr>users := save_user (user_id u)
                   (\<lambda>d. d\<lparr>lastLogin := Some (at_userWrite clk)\<rparr>) (users st),
               loginActivities :=
                 loginActivities st @ [successActivity u di loc (at_sessionCreate clk)]\<rparr>)
       \<and> findOne (\<lambda>u. username u = req_username req)
             (users (snd (login verify clk token req st)))
           = Some (u\<lparr>lastLogin := Some (at_userWrite clk)\<rparr>)
       \<and> isActive (successActivity u di loc (at_sessionCreate clk)) = Some True
       \<and> isSuspicious (successActivity u di loc (at_sessionCreate clk)) = Some False
       \<and> location (successActivity u di loc (at_sessionCreate clk)) = Some loc
       \<and> loginTime (successActivity u di loc (at_sessionCreate clk))
           = Some (at_sessionCreate clk)"
proof -
  let ?seen = "\<lambda>d::user. d\<lparr>lastLogin := Some (at_userWrite clk)\<rparr>"
  have un: "username u = req_username req"
    using assms(1) by (auto dest: findOne_Some_D)
  have r: "login verify clk token req st =
           (LoginOk token (username u) (\<not> notificationPermission u),
            st\<lparr>users := save_user (user_id u) ?seen (users st),
               loginActivities :=
                 loginActivities st @ [successActivity u di loc (at_sessionCreate clk)]\<rparr>)"
    using assms(1-5)
    by (auto simp: login_def login_unlocked_def lockActive_def secretCorrect_def create_def
        split: option.splits)
  have "findOne (\<lambda>u. username u = req_username req)
          (updateOne (\<lambda>d. user_id d = user_id u) ?seen (users st)) = Some (?seen u)"
    by (rule findOne_updateOne_key [OF assms(1) assms(6)]) (simp add: un)
  with r show ?thesis by (simp add: save_user_def successActivity_def)
qed

theorem login_success_witness:
  "login verify0 clock0 ''t'' (aliceLogin ''spare'' True (Some home)) expiredStore =
     (LoginOk ''t'' ''alice'' True,
      \<lparr> users = [bob, alice\<lparr>emergencyLockUntil := Some 900, lastLogin := Some 1001\<rparr>],
        loginActivities =
          [successActivity (alice\<lparr>emergencyLockUntil := Some 900\<rparr>) phone home 1002],
        diaryEntries = [] \<rparr>)"
proof -
  let ?req = "aliceLogin ''spare'' True (Some home)"
  let ?u = "alice\<lparr>emergencyLockUntil := Some 900\<rparr>"
  have f: "findOne (\<lambda>u. username u = req_username ?req) (users expiredStore) = Some ?u"
    by (simp add: findOne_def expiredStore_def aliceLogin_def alice_def bob_def)
  have l: "\<not> lockActive ?u (at_lockCheck clock0)"
    by (simp add: lockActive_def clock0_def)
  have s: "secretCorrect verify0 ?req ?u"
    by (simp add: secretCorrect_def aliceLogin_def alice_def bcrypt_compare_def verify0_def)
  have n: "req_location ?req = Some home" by (simp add: aliceLogin_def)
  have d: "req_deviceInfo ?req = Some phone" by (simp add: aliceLogin_def)
  have i: "distinct (map user_id (users expiredStore))"
    by (simp add: expiredStore_def alice_def bob_def)
  show ?thesis
    using login_success [OF f l s n d i, of "''t''"]
    by (simp add: save_user_def expiredStore_def alice_def bob_def clock0_def)
qed

section \<open>Failed attempts and the store\<close>

text \<open>
  Claim C10. An authenticate call that answers \<open>InvalidCredentials\<close> (no user of that
  name, or a secret that does not match the selected hash) or \<open>AccountLocked\<close> returns
  the store it was given: no user is written and no session record is appended. Of the
  calls that carry device information, the only failing one that changes the store is
  the one that answers \<open>LocationRequired\<close>.
\<close>

theorem login_failure_no_write:
  "(fst (login verify clk token req st) = InvalidCredentials
      \<or> fst (login verify clk token req st) = AccountLocked until
    \<longrightarrow> snd (login verify clk token req st) = st)
   \<and> (req_deviceInfo req \<noteq> None \<and> snd (login verify clk token req st) \<noteq> st
    \<longrightarrow> fst (login verify clk token req st) = LocationRequired
        \<or> (\<exists>name flag. fst (login verify clk token req st) = LoginOk token name flag))"
  by (auto simp: login_def login_unlocked_def Let_def split: option.splits if_splits)

theorem login_failure_no_write_witness:
  "login verify0 clock0 ''t'' (aliceLogin ''wrong'' False (Some home)) store0
     = (InvalidCredentials, store0)
   \<and> login verify0 clock0 ''t'' (aliceLogin ''secret'' False (Some home)) lockedStore
     = (AccountLocked 5000, lockedStore)"
proof -
  have r: "fst (login verify0 clock0 ''t'' (aliceLogin ''wrong'' False (Some home)) store0)
             = InvalidCredentials"
    by (simp add: login_def login_unlocked_def findOne_def store0_def aliceLogin_def
        alice_def bob_def bcrypt_compare_def verify0_def)
  have l: "fst (login verify0 clock0 ''t'' (aliceLogin ''secret'' False (Some home)) lockedStore)
             = AccountLocked 5000"
    by (simp add: login_def findOne_def lockedStore_def aliceLogin_def alice_def bob_def
        clock0_def)
  show ?thesis
    using r l
      login_failure_no_write
        [of verify0 clock0 "''t''" "aliceLogin ''wrong'' False (Some home)" store0 5000]
      login_failure_no_write
        [of verify0 clock0 "''t''" "aliceLogin ''secret'' False (Some home)" lockedStore 5000]
    by (simp add: prod_eq_iff)
qed

section \<open>Closing a device's sessions\<close>

text \<open>
  Claim C3, as stated, fails when a device has more than one active record:
  \<^verbatim>\<open>updateOne\<close> closes the first of them only, and the second stays active.
\<close>

theorem logout_device_counterexample:
  "activeFor ''d1'' (loginActivities twoSessions)
     = [successActivity alice phone home 1002, successActivity alice phone home 2002]
   \<and> activeFor ''d1'' (loginActivities (logout_device 9000 ''d1'' twoSessions))
     = [successActivity alice phone home 2002]"
  by (simp add: logout_device_def activeFor_def twoSessions_def successActivity_def phone_def)

text \<open>
  Claim C3, amended. \<open>closeDevice(D)\<close> updates at most one session record: the first
  record in store order for \<open>D\<close> with \<^verbatim>\<open>isActive = true\<close>, which gets
  \<^verbatim>\<open>isActive = false\<close> and \<^verbatim>\<open>logoutTime = now\<close>; every other record, the users
  and the diary stay as they were. The records for \<open>D\<close> that are active afterwards are
  those that were active behind that first one; so none is active afterwards when at
  most one was active beforehand, and the store is unchanged when none was.
\<close>

theorem logout_device_first_active:
  "(activeFor dev (loginActivities st) = [] \<longrightarrow> logout_device now dev st = st)
   \<and> (\<forall>pre a post.
         loginActivities st = pre @ a # post \<and> activeFor dev pre = []
           \<and> deviceId a = Some dev \<and> isActive a = Some True
         \<longrightarrow> loginActivities (logout_device now dev st)
               = pre @ a\<lparr>isActive := Some False, logoutTime := Some now\<rparr> # post
           \<and> activeFor dev (loginActivities (logout_device now dev st)) = activeFor dev post)
   \<and> (length (activeFor dev (loginActivities st)) \<le> 1
        \<longrightarrow> activeFor dev (loginActivities (logout_device now dev st)) = [])
   \<and> users (logout_device now dev st) = users st
   \<and> diaryEntries (logout_device now dev st) = diaryEntries st"
proof -
  let ?P = "\<lambda>a. deviceId a = Some dev \<and> isActive a = Some True"
  let ?f = "\<lambda>a::loginActivity. a\<lparr>isActive := Some False, logoutTime := Some now\<rparr>"
  have none: "activeFor dev xs = [] \<Longrightarrow> updateOne ?P ?f xs = xs" for xs
    by (rule updateOne_no_match) (auto simp: activeFor_def filter_empty_conv)
  have first: "activeFor dev pre = [] \<Longrightarrow> ?P a
      \<Longrightarrow> updateOne ?P ?f (pre @ a # post) = pre @ ?f a # post" for pre a post
    by (rule updateOne_first_match) (auto simp: activeFor_def filter_empty_conv)
  have rest: "activeFor dev (updateOne ?P ?f xs) = tl (activeFor dev xs)" for xs
    by (induction xs) (auto simp: activeFor_def)
  have one: "length (activeFor dev xs) \<le> 1 \<Longrightarrow> activeFor dev (updateOne ?P ?f xs) = []" for xs
    unfolding rest by (cases "activeFor dev xs") auto
  show ?thesis
    using none [of "loginActivities st"] one [of "loginActivities st"]
    by (auto simp: logout_device_def first) (simp_all add: activeFor_def)
qed

theorem logout_device_first_active_witness:
  "loginActivities (logout_device 9000 ''d1'' twoSessions)
     = [(successActivity alice phone home 1002)\<lparr>isActive := Some False, logoutTime := Some 9000\<rparr>,
        successActivity alice phone home 2002]
   \<and> activeFor ''d1'' (loginActivities (logout_device 9000 ''d1'' twoSessions))
     = [successActivity alice phone home 2002]"
proof -
  have h: "loginActivities twoSessions
             = [] @ successActivity alice phone home 1002 # [successActivity alice phone home 2002]
           \<and> activeFor ''d1'' [] = []
           \<and> deviceId (successActivity alice phone home 1002) = Some ''d1''
           \<and> isActive (successActivity alice phone home 1002) = Some True"
    by (simp add: twoSessions_def activeFor_def successActivity_def phone_def)
  have "activeFor ''d1'' [successActivity alice phone home 2002]
          = [successActivity alice phone home 2002]"
    by (simp add: activeFor_def successActivity_def phone_def)
  with h logout_device_first_active [of "''d1''" twoSessions 9000] show ?thesis
    by (metis append_Nil)
qed

section \<open>Blocking an address\<close>

text \<open>
  Claim C8 says that after \<open>blockIP(U, ip)\<close> the user's blocked addresses hold \<open>ip\<close>
  exactly once. The route does attempt the set insert (\<^verbatim>\<open>$addToSet\<close>), but it
  selects the user by the fixed string \<^verbatim>\<open>'user_from_token'\<close>, which is no ObjectId:
  for every address and every store the route answers 500 and the store is unchanged, so
  no user's blocked addresses ever gain the address.
\<close>

theorem block_ip_never_inserts:
  "block_ip addr st = (BlockFailed, st)"
  by (simp add: block_ip_def castObjectId_def)

section \<open>The ingest routes\<close>




section \<open>Sync cycle, recovery read and health probe\<close>

text \<open>
  Claim C6, as stated, fails on a store of 51 diary entries whose dates grow with their
  position: the entry with the latest date is among the 50 most recent, and the cycle
  pushes the first 50 entries of the store, which leave it out.
\<close>

theorem syncWithPrimary_counterexample:
  "numbered 50 \<in> set (find_sort_desc_limit date 50 (diaryEntries (bigStore 51)))
   \<and> pushedDiary (issued (syncWithPrimary (Response True) (Response True) (Response True)
        (bigStore 51))) = Some (find_limit 50 (diaryEntries (bigStore 51)))
   \<and> numbered 50 \<notin> set (find_limit 50 (diaryEntries (bigStore 51)))"
  by code_simp

text \<open>
  Claim C6, amended. A run of the secondary's sync cycle pushes diary entries and session
  records to the primary's ingest routes only when its health probe of the primary
  resolved to an ok response, and the records it reads from its own store and pushes are
  the first 50 of each collection in store order, with no ordering by recency. The
  session records are pushed only after the diary push resolved; the store is unchanged.
\<close>

theorem syncWithPrimary_gated_first_50:
  "(pushedDiary (issued (syncWithPrimary health pushDiary pushActivity st)) \<noteq> None
      \<or> pushedActivity (issued (syncWithPrimary health pushDiary pushActivity st)) \<noteq> None
    \<longrightarrow> health = Response True)
   \<and> (health = Response True
      \<longrightarrow> pushedDiary (issued (syncWithPrimary health pushDiary pushActivity st))
            = Some (take 50 (diaryEntries st)))
   \<and> (health = Response True \<and> pushDiary = Response ok
      \<longrightarrow> pushedActivity (issued (syncWithPrimary health pushDiary pushActivity st))
            = Some (take 50 (loginActivities st)))
   \<and> (pushedActivity (issued (syncWithPrimary health pushDiary pushActivity st)) = Some rs
      \<longrightarrow> rs = take 50 (loginActivities st))
   \<and> after (syncWithPrimary health pushDiary pushActivity st) = st"
  by (cases health; cases pushDiary; cases pushActivity)
     (auto simp: syncWithPrimary_def syncWithPrimary_try_def andThen_def try_catch_def
        settle_def await_fetch_def console_log_def start_def find_limit_def Let_def)

theorem syncWithPrimary_gated_first_50_witness:
  "pushedDiary (issued (syncWithPrimary (Response True) (Response False) (Rejected ''timeout'')
      diaryStore)) = Some [diaryOld]
   \<and> pushedActivity (issued (syncWithPrimary (Response True) (Response False)
      (Rejected ''timeout'') diaryStore)) = Some []
   \<and> pushedDiary (issued (syncWithPrimary (Response False) (Response True) (Response True)
      diaryStore)) = None"
proof -
  have "pushedDiary (issued (syncWithPrimary (Response False) (Response True) (Response True)
      diaryStore)) = None"
    using syncWithPrimary_gated_first_50
      [of "Response False" "Response True" "Response True" diaryStore]
    by auto
  then show ?thesis
    using syncWithPrimary_gated_first_50
      [of "Response True" "Response False" "Rejected ''timeout''" diaryStore False]
    by (simp add: diaryStore_def)
qed

text \<open>
  Claim C7, as stated, fails on a store of 101 diary entries whose dates grow with their
  position: the entry with the latest date is among the 100 most recent and is not
  among the entries returned.
\<close>

theorem backup_data_counterexample:
  "numbered 100 \<in> set (find_sort_desc_limit date 100 (diaryEntries (bigStore 101)))
   \<and> numbered 100 \<notin> set (fst (fst (backup_data (bigStore 101))))"
  by code_simp

text \<open>
  Claim C7, amended. \<open>pullBackupData\<close> is read-only and returns the first 100 diary
  entries and the first 100 session records of the node's store in store order: at most
  100 of each, with no selection by recency.
\<close>

theorem backup_data_first_100:
  "snd (backup_data st) = st
   \<and> fst (fst (backup_data st)) = take 100 (diaryEntries st)
   \<and> snd (fst (backup_data st)) = take 100 (loginActivities st)
   \<and> length (fst (fst (backup_data st))) \<le> 100
   \<and> length (snd (fst (backup_data st))) \<le> 100"
  by (simp add: backup_data_def find_limit_def)




text \<open>
  Beside the claims: a push that the primary answers with a response that is not ok is
  not noticed. The cycle goes on to the second push and logs its usual line.
\<close>

lemma push_response_not_read:
  "logged (syncWithPrimary (Response True) (Response False) (Response False) st)
     = [''Synced data with primary service'']"
  by (simp add: syncWithPrimary_def syncWithPrimary_try_def andThen_def try_catch_def
      settle_def await_fetch_def console_log_def start_def Let_def)

end
